theory Spec2Isabelle
  imports Main "HOL-Library.Sublist" "HOL-Library.AList"
begin

section \<open>Python values, exceptions and built-ins\<close>

text \<open>
  The values that travel through the session layer are JSON documents decoded by
  \<^verbatim>\<open>json.loads\<close>, message fields (strings), thread ids and pointers (unbounded
  integers) and byte buffers. Floats do not occur in the protocol and are left out.
  A Python \<^verbatim>\<open>dict\<close> keeps its keys in insertion order, so it is an association list.
\<close>

datatype pyval =
    PNone
  | PBool bool
  | PInt int
  | PStr string
  | PBytes "nat list"
  | PList "pyval list"
  | PDict "(string \<times> pyval) list"

datatype exn =
    KeyError
  | IndexError
  | ValueError
  | TypeError
  | AttributeError
  | InvalidOperationError
  | ExternalError string

subsection \<open>\<^verbatim>\<open>str(int)\<close> and \<open>int(str)\<close>\<close>

definition digit_char :: "nat \<Rightarrow> char" where
  "digit_char d = ''0123456789'' ! d"

fun str_nat :: "nat \<Rightarrow> string" where
  "str_nat n = (if n < 10 then [digit_char n] else str_nat (n div 10) @ [digit_char (n mod 10)])"

declare str_nat.simps [simp del]

definition str_int :: "int \<Rightarrow> string" where
  "str_int i = (if i < 0 then CHR ''-'' # str_nat (nat (- i)) else str_nat (nat i))"

definition digit_val :: "char \<Rightarrow> nat option" where
  "digit_val c = (if c \<in> set ''0123456789'' then Some (of_char c - 48) else None)"

text \<open>Whitespace that \<^verbatim>\<open>int()\<close> strips: the characters 9 to 13, 28 to 31 and the blank.\<close>

definition is_space :: "char \<Rightarrow> bool" where
  "is_space c = (of_char c \<in> set [9, 10, 11, 12, 13, 28, 29, 30, 31, 32 :: nat])"

definition strip :: "string \<Rightarrow> string" where
  "strip s = rev (dropWhile is_space (rev (dropWhile is_space s)))"

text \<open>
  Digits with single underscores between them; the flag says whether the previous
  character was a digit (an underscore is accepted only after a digit, and the literal
  must end with a digit).
\<close>

fun int_digits :: "bool \<Rightarrow> nat \<Rightarrow> string \<Rightarrow> nat option" where
  "int_digits p acc [] = (if p then Some acc else None)"
| "int_digits p acc (c # cs) =
     (if c = CHR ''_'' then (if p then int_digits False acc cs else None)
      else (case digit_val c of
              None \<Rightarrow> None
            | Some d \<Rightarrow> int_digits True (10 * acc + d) cs))"

definition py_int :: "string \<Rightarrow> int option" where
  "py_int s =
     (case strip s of
        [] \<Rightarrow> None
      | c # cs \<Rightarrow>
          (if c = CHR ''-'' then map_option (\<lambda>n. - int n) (int_digits False 0 cs)
           else if c = CHR ''+'' then map_option int (int_digits False 0 cs)
           else map_option int (int_digits False 0 (c # cs))))"

text \<open>\<^verbatim>\<open>hex(int)\<close>.\<close>

definition hex_char :: "nat \<Rightarrow> char" where
  "hex_char d = ''0123456789abcdef'' ! d"

fun hex_nat :: "nat \<Rightarrow> string" where
  "hex_nat n = (if n < 16 then [hex_char n] else hex_nat (n div 16) @ [hex_char (n mod 16)])"

declare hex_nat.simps [simp del]

definition py_hex :: "int \<Rightarrow> string" where
  "py_hex i = (if i < 0 then ''-0x'' @ hex_nat (nat (- i)) else ''0x'' @ hex_nat (nat i))"

subsection \<open>\<^verbatim>\<open>str.split(':::')\<close>\<close>

text \<open>
  Splitting at the leftmost, non-overlapping occurrences of a non-empty separator.
  The counter is the number of separator characters still to be skipped after a match;
  \<open>cur\<close> is the current field, reversed.
\<close>

fun split_aux :: "string \<Rightarrow> nat \<Rightarrow> string \<Rightarrow> string \<Rightarrow> string list" where
  "split_aux sep k cur [] = [rev cur]"
| "split_aux sep (Suc k) cur (c # cs) = split_aux sep k cur cs"
| "split_aux sep 0 cur (c # cs) =
     (if prefix sep (c # cs) then rev cur # split_aux sep (length sep - 1) [] cs
      else split_aux sep 0 (c # cur) cs)"

definition split :: "string \<Rightarrow> string \<Rightarrow> string list" where
  "split what sep = split_aux sep 0 [] what"

definition part :: "string list \<Rightarrow> nat \<Rightarrow> exn + string" where
  "part parts i = (if i < length parts then Inr (parts ! i) else Inl IndexError)"

subsection \<open>Operators on values\<close>

fun is_substring :: "string \<Rightarrow> string \<Rightarrow> bool" where
  "is_substring k [] = (k = [])"
| "is_substring k (c # cs) = (prefix k (c # cs) \<or> is_substring k cs)"

text \<open>\<^verbatim>\<open>key in v\<close> for a string key.\<close>

fun py_contains :: "string \<Rightarrow> pyval \<Rightarrow> exn + bool" where
  "py_contains k (PDict d) = Inr (map_of d k \<noteq> None)"
| "py_contains k (PList xs) = Inr (PStr k \<in> set xs)"
| "py_contains k (PStr s) = Inr (is_substring k s)"
| "py_contains k v = Inl TypeError"

text \<open>\<^verbatim>\<open>v[key]\<close> for a string key.\<close>

fun py_getitem :: "pyval \<Rightarrow> string \<Rightarrow> exn + pyval" where
  "py_getitem (PDict d) k = (case map_of d k of None \<Rightarrow> Inl KeyError | Some v \<Rightarrow> Inr v)"
| "py_getitem v k = Inl TypeError"

text \<open>Truthiness, as \<^verbatim>\<open>if v:\<close> tests it.\<close>

fun truthy :: "pyval \<Rightarrow> bool" where
  "truthy PNone = False"
| "truthy (PBool b) = b"
| "truthy (PInt n) = (n \<noteq> 0)"
| "truthy (PStr s) = (s \<noteq> [])"
| "truthy (PBytes bs) = (bs \<noteq> [])"
| "truthy (PList xs) = (xs \<noteq> [])"
| "truthy (PDict d) = (d \<noteq> [])"

text \<open>\<^verbatim>\<open>v == n\<close> for an integer \<open>n\<close>: a bool is the integer 0 or 1.\<close>

fun py_eq_int :: "pyval \<Rightarrow> int \<Rightarrow> bool" where
  "py_eq_int (PInt m) n = (m = n)"
| "py_eq_int (PBool b) n = ((if b then 1 else 0) = n)"
| "py_eq_int v n = False"

fun as_int :: "pyval \<Rightarrow> int option" where
  "as_int (PInt n) = Some n"
| "as_int (PBool b) = Some (if b then 1 else 0)"
| "as_int v = None"

text \<open>\<^verbatim>\<open>len(v)\<close>.\<close>

fun py_len :: "pyval \<Rightarrow> exn + nat" where
  "py_len (PStr s) = Inr (length s)"
| "py_len (PBytes bs) = Inr (length bs)"
| "py_len (PList xs) = Inr (length xs)"
| "py_len (PDict d) = Inr (length d)"
| "py_len v = Inl TypeError"

text \<open>\<^verbatim>\<open>a += b\<close> on a string or a list (a list is extended by the items of \<open>b\<close>).\<close>

fun py_iadd :: "pyval \<Rightarrow> pyval \<Rightarrow> exn + pyval" where
  "py_iadd (PStr a) (PStr b) = Inr (PStr (a @ b))"
| "py_iadd (PList xs) (PStr b) = Inr (PList (xs @ map (\<lambda>c. PStr [c]) b))"
| "py_iadd (PList xs) (PList ys) = Inr (PList (xs @ ys))"
| "py_iadd (PList xs) (PDict d) = Inr (PList (xs @ map (\<lambda>kv. PStr (fst kv)) d))"
| "py_iadd (PList xs) (PBytes bs) = Inr (PList (xs @ map (\<lambda>b. PInt (int b)) bs))"
| "py_iadd a b = Inl TypeError"

text \<open>Sequencing of an expression that may raise.\<close>

definition bindE :: "exn + 'a \<Rightarrow> ('a \<Rightarrow> exn + 'b) \<Rightarrow> exn + 'b" where
  "bindE x f = (case x of Inl e \<Rightarrow> Inl e | Inr v \<Rightarrow> f v)"


section \<open>The session state\<close>

datatype hook_type = HOOK_NATIVE | HOOK_JAVA | HOOK_ONLOAD | HOOK_WATCHER

text \<open>
  Modelled from the spec: the class \<^verbatim>\<open>Hook\<close> of \<^verbatim>\<open>lib/hook.py\<close> is not among the
  sources. The spec gives a hook a kind, a placement (pointer and input), original bytes,
  a break condition, a break logic, an internal flag and debug symbol metadata; the
  setters \<^verbatim>\<open>set_ptr\<close>, \<^verbatim>\<open>set_input\<close>, \<^verbatim>\<open>set_bytes\<close>, \<^verbatim>\<open>set_condition\<close>, \<^verbatim>\<open>set_logic\<close>
  and \<^verbatim>\<open>set_debug_symbol\<close> store their argument and \<^verbatim>\<open>get_ptr\<close>, \<^verbatim>\<open>get_input\<close> read
  it back. The dispatcher assigns the attribute \<^verbatim>\<open>internalHook\<close>.
\<close>

record hook =
  hook_type :: hook_type
  ptr :: int
  input :: string
  bytes :: "nat list"
  condition :: pyval
  logic :: pyval
  internalHook :: bool
  debug_symbol :: pyval

text \<open>
  Modelled from the spec: the class \<^verbatim>\<open>Context\<close> of \<^verbatim>\<open>lib/context.py\<close> is not among
  the sources; a context is built from the embedded register and variable data.
\<close>

datatype thread_context = Context pyval

text \<open>
  Everything the session layer does to the outside is recorded, in order: the signals it
  emits, what it prints, what it sends to the injected script, and the calls into the
  device and the window.
\<close>

datatype effect =
    Print string
  | ScriptPost pyval
  | ScriptApi pyval string pyval
  | ScriptHooks
  | DeviceResume int
  | EnableKernelMenu
  | FtraceAppend string
  | AddJavaOnLoadAction
  | OnBackTrace pyval
  | OnEnumerateJavaClassesStart
  | OnEnumerateJavaClassesMatch string
  | OnEnumerateJavaClassesComplete
  | OnEnumerateJavaMethodsComplete string pyval
  | OnAddJavaHook hook
  | OnAddJavaOnLoadHook hook
  | OnAddNativeHook hook
  | OnAddNativeOnLoadHook hook
  | OnDeleteHook "string list"
  | OnHitJavaOnLoad string
  | OnHitNativeOnLoad string string
  | OnJavaTraceEvent "string list"
  | OnLogToConsole string
  | OnLogEvent string
  | OnThreadResumed int
  | OnRequestJsThreadResume int
  | OnSetModules pyval
  | OnSetRanges pyval
  | OnApplyContext pyval
  | OnContextChanged string string
  | OnSetData pyval
  | OnWatcherAdded string int
  | OnWatcherRemoved string
  | OnMemoryScanResult pyval

type_synonym plugin = string

record dwarf =
  java_available :: pyval
  plugins :: "plugin list"
  device :: "string option"
  pid :: int
  package :: "string option"
  process :: "nat option"
  script :: "nat option"
  spawned :: bool
  resumed :: bool
  hooks :: "(int \<times> hook) list"
  native_on_loads :: "(string \<times> hook) list"
  java_on_loads :: "(string \<times> hook) list"
  java_hooks :: "(string \<times> hook) list"
  watchers :: "(string \<times> hook) list"
  temporary_input :: string
  native_pending_args :: pyval
  java_pending_args :: pyval
  arch :: pyval
  pointer_size :: pyval
  platform :: pyval
  contexts :: "(string \<times> thread_context) list"
  context_tid :: pyval
  trace :: "effect list"

text \<open>What the directory scan of \<^verbatim>\<open>reload_plugins\<close> finds for one plugin directory.\<close>

datatype plugin_dir = NoPluginFile | NoSpec | Loads plugin | LoadFails string

text \<open>
  The collaborators outside the repository's sources: the Python standard library
  (\<^verbatim>\<open>json.loads\<close>, \<^verbatim>\<open>int(s, 16)\<close>, \<^verbatim>\<open>binascii.unhexlify\<close>,
  \<^verbatim>\<open>bytes.fromhex\<close>, \<^verbatim>\<open>repr\<close>, \<^verbatim>\<open>str\<close> of an exception), the injected script
  (\<^verbatim>\<open>post\<close>, \<^verbatim>\<open>exports.api\<close>, \<^verbatim>\<open>exports.hooks\<close>), the device, the window, the plugin
  directory, and the helpers \<^verbatim>\<open>utils.parse_ptr\<close>, \<^verbatim>\<open>Hook\<close> and \<^verbatim>\<open>Context\<close> whose files
  are not among the sources. A call that may raise returns the exception.
\<close>

record env =
  json_loads :: "string \<Rightarrow> pyval option"
  int16 :: "string \<Rightarrow> int option"
  unhexlify :: "string \<Rightarrow> nat list option"
  fromhex :: "string \<Rightarrow> nat list option"
  py_repr :: "pyval \<Rightarrow> string"
  exn_str :: "exn \<Rightarrow> string"
  parse_ptr :: "pyval \<Rightarrow> exn + int"
  new_Hook :: "hook_type \<Rightarrow> hook"
  internal_hook :: "hook \<Rightarrow> bool"
  new_Context :: "pyval \<Rightarrow> exn + thread_context"
  post_result :: "pyval \<Rightarrow> exn option"
  api_result :: "pyval \<Rightarrow> string \<Rightarrow> pyval \<Rightarrow> exn + pyval"
  hooks_result :: "exn + string"
  resume_result :: "int \<Rightarrow> exn option"
  ftrace_panel :: "bool option"
  plugin_dirs :: "plugin_dir list"

text \<open>\<^verbatim>\<open>str(v)\<close>.\<close>

definition py_str :: "env \<Rightarrow> pyval \<Rightarrow> string" where
  "py_str env v =
     (case v of
        PStr s \<Rightarrow> s
      | PInt n \<Rightarrow> str_int n
      | PNone \<Rightarrow> ''None''
      | PBool b \<Rightarrow> (if b then ''True'' else ''False'')
      | _ \<Rightarrow> py_repr env v)"

definition emit :: "effect \<Rightarrow> dwarf \<Rightarrow> dwarf" where
  "emit e s = s\<lparr>trace := trace s @ [e]\<rparr>"

definition log :: "string \<Rightarrow> dwarf \<Rightarrow> dwarf" where
  "log what s = emit (OnLogToConsole what) s"

definition log_event :: "string \<Rightarrow> dwarf \<Rightarrow> dwarf" where
  "log_event what s = emit (OnLogEvent what) s"

text \<open>A statement that needs the value of an expression: the exception leaves in the state reached.\<close>

definition need :: "exn + 'a \<Rightarrow> 's \<Rightarrow> ('a \<Rightarrow> exn option \<times> 's) \<Rightarrow> exn option \<times> 's" where
  "need x s k = (case x of Inl e \<Rightarrow> (Some e, s) | Inr v \<Rightarrow> k v)"

definition loads :: "env \<Rightarrow> string \<Rightarrow> exn + pyval" where
  "loads env t = (case json_loads env t of None \<Rightarrow> Inl ValueError | Some v \<Rightarrow> Inr v)"

definition opt :: "exn \<Rightarrow> 'a option \<Rightarrow> exn + 'a" where
  "opt e x = (case x of None \<Rightarrow> Inl e | Some v \<Rightarrow> Inr v)"

text \<open>\<^verbatim>\<open>d.pop(k)\<close> without a default: a missing key raises.\<close>

definition pop :: "'k \<Rightarrow> ('k \<times> 'v) list \<Rightarrow> exn + ('k \<times> 'v) list" where
  "pop k d = (if map_of d k = None then Inl KeyError else Inr (AList.delete k d))"

subsection \<open>\<^verbatim>\<open>reinitialize\<close> and \<^verbatim>\<open>reload_plugins\<close>\<close>

text \<open>
  The scan appends each plugin that loads; directories without a plugin file or without
  a module spec are skipped, and the first plugin that fails to load ends the scan.
\<close>

fun load_plugins :: "plugin_dir list \<Rightarrow> dwarf \<Rightarrow> dwarf" where
  "load_plugins [] s = s"
| "load_plugins (NoPluginFile # ds) s = load_plugins ds s"
| "load_plugins (NoSpec # ds) s = load_plugins ds s"
| "load_plugins (Loads p # ds) s = load_plugins ds (s\<lparr>plugins := plugins s @ [p]\<rparr>)"
| "load_plugins (LoadFails msg # ds) s = emit (Print msg) s"

definition reload_plugins :: "env \<Rightarrow> dwarf \<Rightarrow> dwarf" where
  "reload_plugins env s = load_plugins (plugin_dirs env) s"


subsection \<open>\<^verbatim>\<open>dwarf_api\<close>: the gateway to the injected script\<close>

text \<open>
  A call on \<^verbatim>\<open>self._script\<close> raises AttributeError when no script is loaded; otherwise
  the call is recorded and the script answers.
\<close>

definition script_post :: "env \<Rightarrow> pyval \<Rightarrow> dwarf \<Rightarrow> exn option \<times> dwarf" where
  "script_post env v s =
     (case script s of
        None \<Rightarrow> (Some AttributeError, s)
      | Some _ \<Rightarrow> (post_result env v, emit (ScriptPost v) s))"

definition script_api :: "env \<Rightarrow> pyval \<Rightarrow> string \<Rightarrow> pyval \<Rightarrow> dwarf \<Rightarrow> (exn + pyval) \<times> dwarf" where
  "script_api env tid api args s =
     (case script s of
        None \<Rightarrow> (Inl AttributeError, s)
      | Some _ \<Rightarrow> (api_result env tid api args, emit (ScriptApi tid api args) s))"

text \<open>
  The loop \<^verbatim>\<open>for tid in list(self.contexts.keys())\<close>: it rebinds \<open>tid\<close> to each key,
  posts the key, and for a release calls the script with \<^verbatim>\<open>int(tid)\<close>. The result is the
  last binding of \<open>tid\<close>, or the exception that ended the loop.
\<close>

fun api_loop :: "env \<Rightarrow> bool \<Rightarrow> string \<Rightarrow> string list \<Rightarrow> pyval \<Rightarrow> dwarf \<Rightarrow> (exn + pyval) \<times> dwarf" where
  "api_loop env is_releasing api [] tid s = (Inr tid, s)"
| "api_loop env is_releasing api (k # ks) tid s =
     (case script_post env (PStr k) s of
        (Some e, s1) \<Rightarrow> (Inl e, s1)
      | (None, s1) \<Rightarrow>
          (if is_releasing then
             (case py_int k of
                None \<Rightarrow> (Inl ValueError, s1)
              | Some n \<Rightarrow>
                  (case script_api env (PInt n) api (PList [PInt n]) s1 of
                     (Inl e, s2) \<Rightarrow> (Inl e, s2)
                   | (Inr r, s2) \<Rightarrow> api_loop env is_releasing api ks (PStr k) s2))
           else api_loop env is_releasing api ks (PStr k) s1))"

text \<open>The body of the \<^verbatim>\<open>try\<close> block.\<close>

definition api_body :: "env \<Rightarrow> bool \<Rightarrow> string \<Rightarrow> pyval \<Rightarrow> pyval \<Rightarrow> dwarf \<Rightarrow> (exn + pyval) \<times> dwarf" where
  "api_body env is_releasing api args tid s =
     (if py_eq_int tid 0 then
        (case api_loop env is_releasing api (map fst (contexts s)) tid s of
           (Inl e, s1) \<Rightarrow> (Inl e, s1)
         | (Inr tid1, s1) \<Rightarrow>
             (if is_releasing then (Inr PNone, s1)
              else script_api env tid1 api args s1))
      else
        (case script_post env (PStr (py_str env tid)) s of
           (Some e, s1) \<Rightarrow> (Inl e, s1)
         | (None, s1) \<Rightarrow> script_api env tid api args s1))"

definition dwarf_api :: "env \<Rightarrow> string \<Rightarrow> pyval \<Rightarrow> pyval \<Rightarrow> dwarf \<Rightarrow> pyval \<times> dwarf" where
  "dwarf_api env api args tid s =
     (if (pid s \<noteq> 0 \<and> pid s = 0) \<or> process s = None then (PNone, s)
      else
        let is_releasing = (api = ''release'');
            tid1 = (if \<not> is_releasing \<and> py_eq_int tid 0 then context_tid s else tid);
            args1 = (case args of PNone \<Rightarrow> PNone | PList xs \<Rightarrow> PList xs | a \<Rightarrow> PList [a])
        in if script s = None then (PNone, s)
           else
             (case api_body env is_releasing api args1 tid1 s of
                (Inr r, s1) \<Rightarrow> (r, s1)
              | (Inl e, s1) \<Rightarrow> (PNone, log_event (exn_str env e) s1)))"

definition on_request_resume_from_js :: "env \<Rightarrow> int \<Rightarrow> dwarf \<Rightarrow> dwarf" where
  "on_request_resume_from_js env tid s = snd (dwarf_api env ''release'' (PInt tid) (PInt tid) s)"

subsection \<open>\<^verbatim>\<open>resume_proc\<close> and \<^verbatim>\<open>read_memory\<close>\<close>

text \<open>
  Only \<^verbatim>\<open>frida.InvalidOperationError\<close> is swallowed; without a device the call raises
  AttributeError.
\<close>

definition resume_proc :: "env \<Rightarrow> dwarf \<Rightarrow> exn option \<times> dwarf" where
  "resume_proc env s =
     (if spawned s \<and> \<not> resumed s then
        (let s1 = s\<lparr>resumed := True\<rparr> in
         case device s1 of
           None \<Rightarrow> (Some AttributeError, s1)
         | Some d \<Rightarrow>
             (case resume_result env (pid s1) of
                Some InvalidOperationError \<Rightarrow> (None, emit (DeviceResume (pid s1)) s1)
              | r \<Rightarrow> (r, emit (DeviceResume (pid s1)) s1)))
      else (None, s))"

text \<open>
  The chunked loop of \<^verbatim>\<open>read_memory\<close>. In the source \<open>next_size\<close> is one MiB while more
  than one MiB remains and the remainder afterwards, which is the minimum written here;
  a chunk that is not a byte string makes \<^verbatim>\<open>data += ...\<close> raise, and the bare
  \<^verbatim>\<open>except\<close> returns None.
\<close>

function read_chunks :: "env \<Rightarrow> int \<Rightarrow> int \<Rightarrow> int \<Rightarrow> nat list \<Rightarrow> dwarf \<Rightarrow> pyval \<times> dwarf" where
  "read_chunks env p len position data s =
     (let next_size = min (1024 * 1024) (len - position) in
      case dwarf_api env ''readBytes'' (PList [PInt (p + position), PInt next_size]) (PInt 0) s of
        (PBytes bs, s1) \<Rightarrow>
          (let data1 = data @ bs;
               position1 = position + next_size;
               diff = len - position1
           in if diff > 0 then read_chunks env p len position1 data1 s1
              else (PBytes data1, s1))
      | (r, s1) \<Rightarrow> (PNone, s1))"
  by pat_completeness auto
termination
  by (relation "measure (\<lambda>(env, p, len, position, data, s). nat (len - position))") auto

declare read_chunks.simps [simp del]

definition read_memory :: "env \<Rightarrow> int \<Rightarrow> pyval \<Rightarrow> dwarf \<Rightarrow> (exn + pyval) \<times> dwarf" where
  "read_memory env p len s =
     (case as_int len of
        None \<Rightarrow> (Inl TypeError, s)
      | Some n \<Rightarrow>
          (if n > 1024 * 1024 then
             (case read_chunks env p n 0 [] s of (r, s1) \<Rightarrow> (Inr r, s1))
           else
             (case dwarf_api env ''readBytes'' (PList [PInt p, len]) (PInt 0) s of
                (r, s1) \<Rightarrow> (Inr r, s1))))"

subsection \<open>\<^verbatim>\<open>_on_apply_context\<close>\<close>

text \<open>The symbol text of a hit whose context has a program counter.\<close>

definition symbol_of :: "pyval \<Rightarrow> exn + pyval" where
  "symbol_of c =
     bindE (py_getitem c ''pc'') (\<lambda>pc.
     bindE (py_contains ''symbol'' pc) (\<lambda>has_symbol.
       if has_symbol then
         bindE (py_getitem pc ''symbol'') (\<lambda>symbol.
         bindE (py_getitem symbol ''name'') (\<lambda>nm.
           if nm \<noteq> PNone then
             bindE (py_getitem symbol ''moduleName'') (\<lambda>module_name.
             bindE (py_iadd module_name (PStr '' - '')) (\<lambda>sym1.
               py_iadd sym1 nm))
           else Inr (PStr [])))
       else Inr (PStr [])))"

text \<open>The branch \<^verbatim>\<open>reason == -1\<close>: the handshake after the injection.\<close>

definition apply_initial :: "env \<Rightarrow> pyval \<Rightarrow> dwarf \<Rightarrow> exn option \<times> dwarf" where
  "apply_initial env context_data s =
     need (py_getitem context_data ''arch'') s (\<lambda>a.
       let s1 = s\<lparr>arch := a\<rparr> in
     need (py_getitem context_data ''platform'') s1 (\<lambda>p.
       let s2 = s1\<lparr>platform := p\<rparr> in
     need (py_getitem context_data ''pointerSize'') s2 (\<lambda>ps.
       let s3 = s2\<lparr>pointer_size := ps\<rparr> in
     need (py_getitem context_data ''java'') s3 (\<lambda>j.
       let s4 = s3\<lparr>java_available := j\<rparr>;
           s5 = log_event (''injected into := '' @ str_int (pid s4)) s4
       in (None, if truthy j then emit AddJavaOnLoadAction s5 else s5)))))"

text \<open>The branch \<^verbatim>\<open>'context' in context_data\<close>: a hook or breakpoint hit.\<close>

definition apply_hit :: "env \<Rightarrow> pyval \<Rightarrow> dwarf \<Rightarrow> exn option \<times> dwarf" where
  "apply_hit env context_data s =
     need (py_getitem context_data ''context'') s (\<lambda>c.
     need (new_Context env c) s (\<lambda>ctx.
     need (py_getitem context_data ''tid'') s (\<lambda>tid.
       let s1 = s\<lparr>contexts := AList.update (py_str env tid) ctx (contexts s)\<rparr> in
     need (py_contains ''pc'' c) s1 (\<lambda>has_pc.
     need (py_getitem context_data ''ptr'') s1 (\<lambda>name.
     need (if has_pc then symbol_of c else Inr (PStr [])) s1 (\<lambda>sym.
     need (py_getitem context_data ''reason'') s1 (\<lambda>reason.
       if py_eq_int reason 0 then
         need (opt TypeError (as_int tid)) s1 (\<lambda>n.
           (None, log_event (''hook '' @ py_str env name @ '' '' @ py_str env sym
                              @ '' @thread := '' @ str_int n) s1))
       else (None, s1))))))))"

definition on_apply_context :: "env \<Rightarrow> pyval \<Rightarrow> dwarf \<Rightarrow> exn option \<times> dwarf" where
  "on_apply_context env context_data s =
     need (py_getitem context_data ''reason'') s (\<lambda>reason.
       case (if py_eq_int reason (- 1) then apply_initial env context_data s
             else need (py_contains ''context'' context_data) s (\<lambda>has_context.
                    if has_context then apply_hit env context_data s else (None, s))) of
         (Some e, s1) \<Rightarrow> (Some e, s1)
       | (None, s1) \<Rightarrow>
           (if \<not> py_eq_int reason (- 1) \<and> py_eq_int (context_tid s1) 0 then
              need (py_getitem context_data ''tid'') s1 (\<lambda>tid. (None, s1\<lparr>context_tid := tid\<rparr>))
            else (None, s1)))"

subsection \<open>\<^verbatim>\<open>_on_message\<close>: the handlers of the tags\<close>

text \<open>
  Each handler is the body of one branch of the \<^verbatim>\<open>if\<close>/\<^verbatim>\<open>elif\<close> chain, in the state
  reached when the branch is entered; \<open>parts\<close> has at least two fields there. A signal
  is recorded when it is emitted; the two signals the class connects to itself
  (\<^verbatim>\<open>onApplyContext\<close>, \<^verbatim>\<open>onRequestJsThreadResume\<close>) run their slot at once.
\<close>

definition h_log2 :: "string \<Rightarrow> string \<Rightarrow> nat \<Rightarrow> nat \<Rightarrow> string list \<Rightarrow> dwarf \<Rightarrow> exn option \<times> dwarf" where
  "h_log2 before between i j parts s =
     need (part parts i) s (\<lambda>a.
     need (part parts j) s (\<lambda>b.
       (None, log_event (before @ a @ between @ b) s)))"

definition h_hook_java_callback :: "env \<Rightarrow> string list \<Rightarrow> dwarf \<Rightarrow> exn option \<times> dwarf" where
  "h_hook_java_callback env parts s =
     (let h = (new_Hook env HOOK_JAVA)\<lparr>ptr := 1, input := parts ! 1\<rparr> in
      if truthy (java_pending_args s) then
        need (py_getitem (java_pending_args s) ''condition'') s (\<lambda>c.
        need (py_getitem (java_pending_args s) ''logic'') s (\<lambda>l.
          let h1 = h\<lparr>condition := c, logic := l\<rparr>;
              s1 = s\<lparr>java_pending_args := PNone\<rparr>;
              s2 = s1\<lparr>java_hooks := AList.update (input h1) h1 (java_hooks s1)\<rparr>
          in (None, emit (OnAddJavaHook h1) s2)))
      else
        (let s2 = s\<lparr>java_hooks := AList.update (input h) h (java_hooks s)\<rparr>
         in (None, emit (OnAddJavaHook h) s2)))"

definition h_hook_java_on_load_callback :: "env \<Rightarrow> string list \<Rightarrow> dwarf \<Rightarrow> exn option \<times> dwarf" where
  "h_hook_java_on_load_callback env parts s =
     (let h = (new_Hook env HOOK_JAVA)\<lparr>ptr := 0, input := parts ! 1\<rparr>;
          s1 = s\<lparr>java_on_loads := AList.update (parts ! 1) h (java_on_loads s)\<rparr>
      in (None, emit (OnAddJavaOnLoadHook h) s1))"

definition h_hook_native_callback :: "env \<Rightarrow> string list \<Rightarrow> dwarf \<Rightarrow> exn option \<times> dwarf" where
  "h_hook_native_callback env parts s =
     need (opt ValueError (int16 env (parts ! 1))) s (\<lambda>p.
       let h1 = (new_Hook env HOOK_NATIVE)\<lparr>ptr := p, input := temporary_input s\<rparr> in
     need (part parts 2) s (\<lambda>p2.
     need (opt ValueError (unhexlify env p2)) s (\<lambda>bs.
       let h2 = h1\<lparr>bytes := bs\<rparr>;
           s1 = s\<lparr>temporary_input := []\<rparr> in
     need (part parts 4) s1 (\<lambda>p4.
     need (part parts 3) s1 (\<lambda>p3.
       let h3 = h2\<lparr>condition := PStr p4, logic := PStr p3\<rparr> in
     need (part parts 5) s1 (\<lambda>p5.
       let h4 = h3\<lparr>internalHook := (p5 = ''true'')\<rparr> in
     need (part parts 6) s1 (\<lambda>p6.
     need (loads env p6) s1 (\<lambda>sym.
       let h5 = h4\<lparr>debug_symbol := sym\<rparr>;
           s2 = s1\<lparr>native_pending_args := PNone\<rparr>
       in if \<not> internal_hook env h5 then
            (None, emit (OnAddNativeHook h5) (s2\<lparr>hooks := AList.update (ptr h5) h5 (hooks s2)\<rparr>))
          else (None, s2)))))))))"

definition h_hook_native_on_load_callback :: "env \<Rightarrow> string list \<Rightarrow> dwarf \<Rightarrow> exn option \<times> dwarf" where
  "h_hook_native_on_load_callback env parts s =
     (let h = (new_Hook env HOOK_ONLOAD)\<lparr>ptr := 0, input := parts ! 1\<rparr>;
          s1 = s\<lparr>native_on_loads := AList.update (parts ! 1) h (native_on_loads s)\<rparr>
      in (None, emit (OnAddNativeOnLoadHook h) s1))"

definition h_hook_deleted :: "env \<Rightarrow> string list \<Rightarrow> dwarf \<Rightarrow> exn option \<times> dwarf" where
  "h_hook_deleted env parts s =
     (if parts ! 1 = ''java'' then
        need (part parts 2) s (\<lambda>k.
        need (pop k (java_hooks s)) s (\<lambda>d.
          (None, emit (OnDeleteHook parts) (s\<lparr>java_hooks := d\<rparr>))))
      else if parts ! 1 = ''native_on_load'' then
        need (part parts 2) s (\<lambda>k.
        need (pop k (native_on_loads s)) s (\<lambda>d.
          (None, emit (OnDeleteHook parts) (s\<lparr>native_on_loads := d\<rparr>))))
      else if parts ! 1 = ''java_on_load'' then
        need (part parts 2) s (\<lambda>k.
        need (pop k (java_on_loads s)) s (\<lambda>d.
          (None, emit (OnDeleteHook parts) (s\<lparr>java_on_loads := d\<rparr>))))
      else
        need (part parts 2) s (\<lambda>k.
        need (parse_ptr env (PStr k)) s (\<lambda>p.
        need (pop p (hooks s)) s (\<lambda>d.
          (None, emit (OnDeleteHook parts) (s\<lparr>hooks := d\<rparr>))))))"

definition h_java_on_load_callback :: "string list \<Rightarrow> dwarf \<Rightarrow> exn option \<times> dwarf" where
  "h_java_on_load_callback parts s =
     (case h_log2 ''Hook java onload '' '' @thread := '' 1 2 parts s of
        (Some e, s1) \<Rightarrow> (Some e, s1)
      | (None, s1) \<Rightarrow> (None, emit (OnHitJavaOnLoad (parts ! 1)) s1))"

definition h_native_on_load_callback :: "string list \<Rightarrow> dwarf \<Rightarrow> exn option \<times> dwarf" where
  "h_native_on_load_callback parts s =
     (case h_log2 ''Hook native onload '' '' @thread := '' 1 3 parts s of
        (Some e, s1) \<Rightarrow> (Some e, s1)
      | (None, s1) \<Rightarrow> (None, emit (OnHitNativeOnLoad (parts ! 1) (parts ! 2)) s1))"

definition h_release :: "string list \<Rightarrow> dwarf \<Rightarrow> exn option \<times> dwarf" where
  "h_release parts s =
     (let s1 = log_event (''releasing := '' @ parts ! 1) s;
          s2 = (if map_of (contexts s1) (parts ! 1) \<noteq> None
                then s1\<lparr>contexts := AList.delete (parts ! 1) (contexts s1)\<rparr> else s1)
      in need (opt ValueError (py_int (parts ! 1))) s2 (\<lambda>n.
           (None, emit (OnThreadResumed n) s2)))"

definition h_resume :: "env \<Rightarrow> dwarf \<Rightarrow> exn option \<times> dwarf" where
  "h_resume env s = (if \<not> (resumed s = True) then resume_proc env s else (None, s))"

definition h_release_js :: "env \<Rightarrow> string list \<Rightarrow> dwarf \<Rightarrow> exn option \<times> dwarf" where
  "h_release_js env parts s =
     need (opt ValueError (py_int (parts ! 1))) s (\<lambda>n.
       (None, on_request_resume_from_js env n (emit (OnRequestJsThreadResume n) s)))"

definition emit_if_present :: "string \<Rightarrow> (pyval \<Rightarrow> effect) \<Rightarrow> pyval \<Rightarrow> dwarf \<Rightarrow> exn option \<times> dwarf" where
  "emit_if_present key signal data s =
     need (py_contains key data) s (\<lambda>present.
       if present then need (py_getitem data key) s (\<lambda>v. (None, emit (signal v) s))
       else (None, s))"

definition h_set_context :: "env \<Rightarrow> string list \<Rightarrow> dwarf \<Rightarrow> exn option \<times> dwarf" where
  "h_set_context env parts s =
     need (loads env (parts ! 1)) s (\<lambda>data.
       case emit_if_present ''modules'' OnSetModules data s of
         (Some e, s1) \<Rightarrow> (Some e, s1)
       | (None, s1) \<Rightarrow>
       (case emit_if_present ''ranges'' OnSetRanges data s1 of
         (Some e, s2) \<Rightarrow> (Some e, s2)
       | (None, s2) \<Rightarrow>
       (case emit_if_present ''backtrace'' OnBackTrace data s2 of
         (Some e, s3) \<Rightarrow> (Some e, s3)
       | (None, s3) \<Rightarrow> on_apply_context env data (emit (OnApplyContext data) s3))))"

definition h_set_data :: "string list \<Rightarrow> pyval \<Rightarrow> dwarf \<Rightarrow> exn option \<times> dwarf" where
  "h_set_data parts data s =
     (if truthy data then
        (None, emit (OnSetData (PList [PStr ''raw'', PStr (parts ! 1), data])) s)
      else
        need (part parts 2) s (\<lambda>p2.
          (None, emit (OnSetData (PList [PStr ''plain'', PStr (parts ! 1), PStr p2])) s)))"

definition h_watcher :: "env \<Rightarrow> string list \<Rightarrow> dwarf \<Rightarrow> exn option \<times> dwarf" where
  "h_watcher env parts s =
     need (loads env (parts ! 1)) s (\<lambda>exception.
     need (py_getitem exception ''memory'') s (\<lambda>m1.
     need (py_getitem m1 ''operation'') s (\<lambda>operation.
     need (py_getitem exception ''memory'') s (\<lambda>m2.
     need (py_getitem m2 ''address'') s (\<lambda>address.
     need (part parts 2) s (\<lambda>p2.
       (None, log_event (''watcher hit op '' @ py_str env operation @ '' address ''
                          @ py_str env address @ '' @thread := '' @ p2) s)))))))"

definition h_watcher_added :: "env \<Rightarrow> string list \<Rightarrow> dwarf \<Rightarrow> exn option \<times> dwarf" where
  "h_watcher_added env parts s =
     need (parse_ptr env (PStr (parts ! 1))) s (\<lambda>p.
       let hex_ptr = py_hex p in
     need (part parts 2) s (\<lambda>p2.
     need (opt ValueError (py_int p2)) s (\<lambda>flags.
       let h = (new_Hook env HOOK_WATCHER)\<lparr>ptr := p, logic := PInt flags\<rparr> in
     need (part parts 3) s (\<lambda>p3.
     need (loads env p3) s (\<lambda>sym.
       let h1 = h\<lparr>debug_symbol := sym\<rparr>;
           s1 = s\<lparr>watchers := AList.update hex_ptr h1 (watchers s)\<rparr>
       in (None, emit (OnWatcherAdded hex_ptr flags) s1))))))"

definition h_watcher_removed :: "env \<Rightarrow> string list \<Rightarrow> dwarf \<Rightarrow> exn option \<times> dwarf" where
  "h_watcher_removed env parts s =
     need (parse_ptr env (PStr (parts ! 1))) s (\<lambda>p.
       let hex_ptr = py_hex p in
     need (pop hex_ptr (watchers s)) s (\<lambda>d.
       (None, emit (OnWatcherRemoved hex_ptr) (s\<lparr>watchers := d\<rparr>))))"

subsection \<open>\<^verbatim>\<open>_on_message\<close>: the dispatch on the tag\<close>

definition dispatch :: "env \<Rightarrow> string list \<Rightarrow> string \<Rightarrow> pyval \<Rightarrow> dwarf \<Rightarrow> exn option \<times> dwarf" where
  "dispatch env parts what data s =
     (let cmd = parts ! 0 in
      if cmd = ''api_ping_timeout'' then script_post env (PStr (parts ! 1)) s
      else if cmd = ''backtrace'' then
        need (loads env (parts ! 1)) s (\<lambda>v. (None, emit (OnBackTrace v) s))
      else if cmd = ''class_loader_loading_class'' then
        h_log2 ''@thread '' '' loading class := '' 1 2 parts s
      else if cmd = ''enumerate_java_classes_start'' then
        (None, emit OnEnumerateJavaClassesStart s)
      else if cmd = ''enumerate_java_classes_match'' then
        (None, emit (OnEnumerateJavaClassesMatch (parts ! 1)) s)
      else if cmd = ''enumerate_java_classes_complete'' then
        (None, emit OnEnumerateJavaClassesComplete s)
      else if cmd = ''enumerate_java_methods_complete'' then
        need (part parts 2) s (\<lambda>p2.
        need (loads env p2) s (\<lambda>v.
          (None, emit (OnEnumerateJavaMethodsComplete (parts ! 1) v) s)))
      else if cmd = ''ftrace'' then
        (case ftrace_panel env of
           None \<Rightarrow> (Some AttributeError, s)
         | Some present \<Rightarrow> (None, if present then emit (FtraceAppend (parts ! 1)) s else s))
      else if cmd = ''enable_kernel'' then (None, emit EnableKernelMenu s)
      else if cmd = ''hook_java_callback'' then h_hook_java_callback env parts s
      else if cmd = ''hook_java_on_load_callback'' then h_hook_java_on_load_callback env parts s
      else if cmd = ''hook_native_callback'' then h_hook_native_callback env parts s
      else if cmd = ''hook_native_on_load_callback'' then h_hook_native_on_load_callback env parts s
      else if cmd = ''hook_deleted'' then h_hook_deleted env parts s
      else if cmd = ''java_on_load_callback'' then h_java_on_load_callback parts s
      else if cmd = ''java_trace'' then (None, emit (OnJavaTraceEvent parts) s)
      else if cmd = ''log'' then (None, log (parts ! 1) s)
      else if cmd = ''native_on_load_callback'' then h_native_on_load_callback parts s
      else if cmd = ''native_on_load_module_loading'' then
        h_log2 ''@thread '' '' loading module := '' 1 2 parts s
      else if cmd = ''new_thread'' then
        h_log2 ''@thread '' '' starting new thread with target fn := '' 1 2 parts s
      else if cmd = ''release'' then h_release parts s
      else if cmd = ''resume'' then h_resume env s
      else if cmd = ''release_js'' then h_release_js env parts s
      else if cmd = ''set_context'' then h_set_context env parts s
      else if cmd = ''set_context_value'' then
        need (part parts 2) s (\<lambda>v. (None, emit (OnContextChanged (parts ! 1) v) s))
      else if cmd = ''set_data'' then h_set_data parts data s
      else if cmd = ''unhandled_exception'' then (None, s)
      else if cmd = ''update_modules'' then
        need (part parts 2) s (\<lambda>p2.
        need (loads env p2) s (\<lambda>modules. (None, emit (OnSetModules modules) s)))
      else if cmd = ''update_ranges'' then
        need (part parts 2) s (\<lambda>p2.
        need (loads env p2) s (\<lambda>ranges. (None, emit (OnSetRanges ranges) s)))
      else if cmd = ''watcher'' then h_watcher env parts s
      else if cmd = ''watcher_added'' then h_watcher_added env parts s
      else if cmd = ''watcher_removed'' then h_watcher_removed env parts s
      else if cmd = ''memoryscan_result'' then
        (if parts ! 1 = [] then (None, emit (OnMemoryScanResult (PList [])) s)
         else need (loads env (parts ! 1)) s (\<lambda>v. (None, emit (OnMemoryScanResult v) s)))
      else (None, emit (Print (''unknown message: '' @ what)) s))"

text \<open>
  A message is the dictionary the channel delivers; \<open>data\<close> is the out-of-band buffer.
  The result is the exception that leaves \<^verbatim>\<open>_on_message\<close>, if any, and the state reached.
  A payload that is not a string has no usable \<^verbatim>\<open>split\<close>.
\<close>

definition on_message :: "env \<Rightarrow> (string \<times> pyval) list \<Rightarrow> pyval \<Rightarrow> dwarf \<Rightarrow> exn option \<times> dwarf" where
  "on_message env message data s =
     (case map_of message ''payload'' of
        None \<Rightarrow> (None, emit (Print (''payload: '' @ py_str env (PDict message))) s)
      | Some (PStr what) \<Rightarrow>
          (let parts = split what '':::'' in
           if length parts < 2 then (None, emit (Print what) s)
           else dispatch env parts what data s)
      | Some (PBytes b) \<Rightarrow> (Some TypeError, s)
      | Some v \<Rightarrow> (Some AttributeError, s))"


text \<open>The message whose payload is the given string, with no out-of-band data.\<close>

definition msg :: "string \<Rightarrow> (string \<times> pyval) list" where
  "msg what = [(''type'', PStr ''send''), (''payload'', PStr what)]"

section \<open>The address range cache\<close>

record range =
  source :: int
  base :: int
  size :: pyval
  tail :: int
  data :: pyval
  start_address :: int
  start_offset :: int

definition SOURCE_TARGET :: int where
  "SOURCE_TARGET = 0"

text \<open>\<^verbatim>\<open>Range(source, dwarf)\<close>; the session the range talks to is passed to each call.\<close>

definition new_Range :: "int \<Rightarrow> range" where
  "new_Range src =
     \<lparr>source = src, base = 0, size = PInt 0, tail = 0, data = PBytes [],
      start_address = 0, start_offset = 0\<rparr>"

definition invalidate :: "range \<Rightarrow> range" where
  "invalidate r =
     r\<lparr>base := 0, size := PInt 0, tail := 0, data := PBytes [],
       start_address := 0, start_offset := 0\<rparr>"

definition set_start_offset :: "int \<Rightarrow> range \<Rightarrow> range" where
  "set_start_offset offset r = r\<lparr>start_offset := offset, start_address := base r + offset\<rparr>"

subsection \<open>\<^verbatim>\<open>patch_bytes\<close>\<close>

text \<open>\<^verbatim>\<open>bytearray(v)\<close>: a copy of a byte string, zeros for a count, the items of a list.\<close>

fun byte_items :: "pyval list \<Rightarrow> exn + nat list" where
  "byte_items [] = Inr []"
| "byte_items (x # xs) =
     (case as_int x of
        None \<Rightarrow> Inl TypeError
      | Some n \<Rightarrow>
          (if 0 \<le> n \<and> n < 256 then bindE (byte_items xs) (\<lambda>bs. Inr (nat n # bs))
           else Inl ValueError))"

fun py_bytearray :: "pyval \<Rightarrow> exn + nat list" where
  "py_bytearray (PBytes bs) = Inr bs"
| "py_bytearray (PInt n) = (if n < 0 then Inl ValueError else Inr (replicate (nat n) 0))"
| "py_bytearray (PBool b) = Inr (replicate (if b then 1 else 0) 0)"
| "py_bytearray (PList xs) = byte_items xs"
| "py_bytearray (PDict d) = (if d = [] then Inr [] else Inl TypeError)"
| "py_bytearray v = Inl TypeError"

text \<open>
  The slice assignment \<^verbatim>\<open>d[off:off+len(org)] = org\<close>: both bounds are clamped to the
  buffer (a negative bound counts from the end), so a slice that starts beyond the end
  appends.
\<close>

definition slice_bound :: "int \<Rightarrow> int \<Rightarrow> int" where
  "slice_bound n i = (if i < 0 then max (n + i) 0 else min i n)"

definition slice_assign :: "nat list \<Rightarrow> int \<Rightarrow> nat list \<Rightarrow> nat list" where
  "slice_assign d off org =
     (let n = int (length d);
          a = slice_bound n off;
          b = max a (slice_bound n (off + int (length org)))
      in take (nat a) d @ org @ drop (nat b) d)"

definition patch_bytes :: "env \<Rightarrow> pyval \<Rightarrow> int \<Rightarrow> range \<Rightarrow> exn option \<times> range" where
  "patch_bytes env bytes_hex offset r =
     need (py_bytearray (data r)) r (\<lambda>data_bt.
     need (case bytes_hex of PStr h \<Rightarrow> opt ValueError (fromhex env h) | _ \<Rightarrow> Inl TypeError) r
       (\<lambda>org_bytes.
         (None, r\<lparr>data := PBytes (slice_assign data_bt offset org_bytes)\<rparr>)))"

subsection \<open>\<^verbatim>\<open>init_with_address\<close>\<close>

text \<open>One round of the loop over the hooks the script reports.\<close>

definition patch_hook :: "env \<Rightarrow> pyval \<Rightarrow> string \<Rightarrow> range \<Rightarrow> exn option \<times> range" where
  "patch_hook env hks key r =
     need (py_getitem hks key) r (\<lambda>hook.
     need (py_getitem hook ''nativePtr'') r (\<lambda>native_ptr.
     need (parse_ptr env native_ptr) r (\<lambda>p.
       if p \<noteq> 1 then
         need (py_getitem hook ''bytes'') r (\<lambda>b.
           if truthy b then
             (let hook_address = (if p mod 2 \<noteq> 0 then p - 1 else p) in
              if base r < hook_address \<and> hook_address < tail r then
                patch_bytes env b (hook_address - base r) r
              else (None, r))
           else (None, r))
       else (None, r))))"

fun patch_hooks :: "env \<Rightarrow> pyval \<Rightarrow> string list \<Rightarrow> range \<Rightarrow> exn option \<times> range" where
  "patch_hooks env hks [] r = (None, r)"
| "patch_hooks env hks (key # keys) r =
     (case patch_hook env hks key r of
        (Some e, r1) \<Rightarrow> (Some e, r1)
      | (None, r1) \<Rightarrow> patch_hooks env hks keys r1)"

text \<open>\<^verbatim>\<open>json.loads(self.dwarf._script.exports.hooks())\<close>.\<close>

definition script_hooks :: "env \<Rightarrow> dwarf \<Rightarrow> (exn + pyval) \<times> dwarf" where
  "script_hooks env s =
     (case script s of
        None \<Rightarrow> (Inl AttributeError, s)
      | Some _ \<Rightarrow> (bindE (hooks_result env) (loads env), emit ScriptHooks s))"

text \<open>The block under \<^verbatim>\<open>if require_data\<close>: read the region, then patch the hooks in.\<close>

definition read_and_patch :: "env \<Rightarrow> range \<Rightarrow> dwarf \<Rightarrow> exn option \<times> range \<times> dwarf" where
  "read_and_patch env r s =
     (case read_memory env (base r) (size r) s of
        (Inl e, s1) \<Rightarrow> (Some e, r, s1)
      | (Inr d, s1) \<Rightarrow>
          (let r1 = r\<lparr>data := d\<rparr> in
           case script_hooks env s1 of
             (Inl e, s2) \<Rightarrow> (Some e, r1, s2)
           | (Inr (PDict hs), s2) \<Rightarrow>
               (case patch_hooks env (PDict hs) (map fst hs) r1 of (x, r2) \<Rightarrow> (x, r2, s2))
           | (Inr v, s2) \<Rightarrow> (Some AttributeError, r1, s2)))"

text \<open>
  The fields of the range are set one after the other from the answer to
  \<^verbatim>\<open>getRange\<close>, so an exception leaves the fields assigned so far.
\<close>

definition setup_range :: "env \<Rightarrow> pyval \<Rightarrow> int \<Rightarrow> int \<Rightarrow> range \<Rightarrow> exn option \<times> range" where
  "setup_range env rg len base_arg r =
     need (py_getitem rg ''base'') r (\<lambda>b.
     need (case b of PStr t \<Rightarrow> opt ValueError (int16 env t) | _ \<Rightarrow> Inl TypeError) r (\<lambda>b16.
       let r1 = r\<lparr>base := b16\<rparr>;
           r2 = (if base_arg > 0 then r1\<lparr>base := base_arg\<rparr> else r1) in
     need (py_getitem rg ''size'') r2 (\<lambda>sz.
       let r3 = r2\<lparr>size := sz\<rparr> in
     need (if 0 < len then opt TypeError (as_int sz) else Inr 0) r3 (\<lambda>n.
       let r4 = (if 0 < len \<and> len < n then r3\<lparr>size := PInt len\<rparr> else r3) in
     need (opt TypeError (as_int (size r4))) r4 (\<lambda>m.
       let r5 = r4\<lparr>tail := base r4 + m\<rparr>
       in (None, r5\<lparr>start_offset := start_address r5 - base r5\<rparr>))))))"

text \<open>
  The result is the status (\<open>-1\<close>, \<open>0\<close> or \<open>1\<close>) or the exception that leaves the call,
  with the range and the session as the call leaves them.
\<close>

definition finish :: "range \<Rightarrow> dwarf \<Rightarrow> (exn + int) \<times> range \<times> dwarf" where
  "finish r s =
     (if data r = PNone then (Inr 1, r\<lparr>data := PBytes []\<rparr>, s)
      else (case py_len (data r) of
              Inl e \<Rightarrow> (Inl e, r, s)
            | Inr n \<Rightarrow> (if n = 0 then (Inr 1, r, s) else (Inr 0, r, s))))"

definition init_with_address ::
  "env \<Rightarrow> pyval \<Rightarrow> int \<Rightarrow> int \<Rightarrow> bool \<Rightarrow> range \<Rightarrow> dwarf \<Rightarrow> (exn + int) \<times> range \<times> dwarf" where
  "init_with_address env address len base_arg require_data r s =
     (case parse_ptr env address of
        Inl e \<Rightarrow> (Inl e, r, s)
      | Inr a \<Rightarrow>
          (let r1 = r\<lparr>start_address := a\<rparr> in
           if base r1 > 0 \<and> base r1 < start_address r1 \<and> start_address r1 < tail r1 then
             (Inr (- 1), r1\<lparr>start_offset := start_address r1 - base r1\<rparr>, s)
           else if source r1 = SOURCE_TARGET then
             (case dwarf_api env ''getRange'' (PInt (start_address r1)) (PInt 0) s of
                (rg, s1) \<Rightarrow>
                  (if rg = PNone then (Inr 1, r1, s1)
                   else (case py_len rg of
                           Inl e \<Rightarrow> (Inl e, r1, s1)
                         | Inr n \<Rightarrow>
                             (if n = 0 then (Inr 1, r1, s1)
                              else (case setup_range env rg len base_arg r1 of
                                      (Some e, r2) \<Rightarrow> (Inl e, r2, s1)
                                    | (None, r2) \<Rightarrow>
                                        (if require_data then
                                           (case read_and_patch env r2 s1 of
                                              (Some e, r3, s2) \<Rightarrow> (Inl e, r3, s2)
                                            | (None, r3, s2) \<Rightarrow> finish r3 s2)
                                         else finish r2 s1))))))
           else finish r1 s))"

section \<open>Vocabulary of the statements\<close>


text \<open>\<^verbatim>\<open>Dwarf.__init__\<close>: the state of a new session object for a device.\<close>

definition new_Dwarf :: "env \<Rightarrow> string option \<Rightarrow> dwarf" where
  "new_Dwarf env dev =
     reload_plugins env
       \<lparr>java_available = PBool False, plugins = [], device = dev,
        pid = 0, package = None, process = None, script = None,
        spawned = False, resumed = False,
        hooks = [], native_on_loads = [], java_on_loads = [], java_hooks = [], watchers = [],
        temporary_input = [], native_pending_args = PNone, java_pending_args = PNone,
        arch = PStr [], pointer_size = PInt 0, platform = PStr [],
        contexts = [], context_tid = PInt 0, trace = []\<rparr>"



section \<open>A concrete environment and concrete sessions\<close>

text \<open>
  A target that answers every range query with the region of 16 bytes at 0x1000, every
  read with 16 trap bytes (0xcc), and reports one native hook at 0x1004 whose original
  bytes are 01 02 03 04. The decoders are tables over the texts that occur.
\<close>

definition initial_context_text :: string where
  \<open>initial_context_text =
     ''{"reason":-1,"arch":"arm64","platform":"linux","pointerSize":8,"java":false}''\<close>

definition initial_context :: pyval where
  "initial_context =
     PDict [(''reason'', PInt (- 1)), (''arch'', PStr ''arm64''), (''platform'', PStr ''linux''),
            (''pointerSize'', PInt 8), (''java'', PBool False)]"

definition hit_context_text :: string where
  \<open>hit_context_text = ''{"reason":0,"tid":7,"ptr":"0x1004","context":{}}''\<close>

definition hit_context :: pyval where
  "hit_context =
     PDict [(''reason'', PInt 0), (''tid'', PInt 7), (''ptr'', PStr ''0x1004''),
            (''context'', PDict [])]"

definition hooks_text :: string where
  \<open>hooks_text = ''{"0x1004":{"nativePtr":"0x1004","bytes":"01020304"}}''\<close>

definition hooks_reply :: pyval where
  "hooks_reply =
     PDict [(''0x1004'', PDict [(''nativePtr'', PStr ''0x1004''), (''bytes'', PStr ''01020304'')])]"

definition test_pointers :: "(string \<times> int) list" where
  "test_pointers = [(''0x1000'', 4096), (''0x1004'', 4100), (''0x1008'', 4104)]"

definition test_env :: env where
  "test_env =
     \<lparr>json_loads = map_of [(''null'', PNone), (''{}'', PDict []),
                           (initial_context_text, initial_context),
                           (hit_context_text, hit_context),
                           (hooks_text, hooks_reply)],
      int16 = map_of test_pointers,
      unhexlify = map_of [(''01020304'', [1, 2, 3, 4]), (''cccccccc'', [204, 204, 204, 204])],
      fromhex = map_of [(''01020304'', [1, 2, 3, 4]), (''cccccccc'', [204, 204, 204, 204])],
      py_repr = (\<lambda>v. ''<object>''),
      exn_str = (\<lambda>e. ''error''),
      parse_ptr = (\<lambda>v. case v of
                           PInt n \<Rightarrow> Inr n
                         | PStr t \<Rightarrow> (case map_of test_pointers t of Some n \<Rightarrow> Inr n | None \<Rightarrow> Inr 0)
                         | _ \<Rightarrow> Inr 0),
      new_Hook = (\<lambda>k. \<lparr>hook_type = k, ptr = 0, input = [], bytes = [], condition = PStr [],
                        logic = PStr [], internalHook = False, debug_symbol = PNone\<rparr>),
      internal_hook = internalHook,
      new_Context = (\<lambda>v. Inr (Context v)),
      post_result = (\<lambda>v. None),
      api_result = (\<lambda>tid api args.
                      if api = ''getRange'' then
                        Inr (PDict [(''base'', PStr ''0x1000''), (''size'', PInt 16)])
                      else if api = ''readBytes'' then Inr (PBytes (replicate 16 204))
                      else Inr PNone),
      hooks_result = Inr hooks_text,
      resume_result = (\<lambda>p. None),
      ftrace_panel = None,
      plugin_dirs = []\<rparr>"

text \<open>A session attached to process 1234 with the script loaded.\<close>

definition attached :: dwarf where
  "attached =
     (new_Dwarf test_env (Some ''local''))\<lparr>pid := 1234, process := Some 1, script := Some 1\<rparr>"


text \<open>The tags the dispatcher recognises, in the order of its branches.\<close>

definition known_tags :: "string list" where
  "known_tags =
     [''api_ping_timeout'', ''backtrace'', ''class_loader_loading_class'',
      ''enumerate_java_classes_start'', ''enumerate_java_classes_match'',
      ''enumerate_java_classes_complete'', ''enumerate_java_methods_complete'',
      ''ftrace'', ''enable_kernel'', ''hook_java_callback'', ''hook_java_on_load_callback'',
      ''hook_native_callback'', ''hook_native_on_load_callback'', ''hook_deleted'',
      ''java_on_load_callback'', ''java_trace'', ''log'', ''native_on_load_callback'',
      ''native_on_load_module_loading'', ''new_thread'', ''release'', ''resume'',
      ''release_js'', ''set_context'', ''set_context_value'', ''set_data'',
      ''unhandled_exception'', ''update_modules'', ''update_ranges'', ''watcher'',
      ''watcher_added'', ''watcher_removed'', ''memoryscan_result'']"







text \<open>A context is stored for a key; a message is a release for a key.\<close>

definition has_context :: "string \<Rightarrow> dwarf \<Rightarrow> bool" where
  "has_context k s = (map_of (contexts s) k \<noteq> None)"




section \<open>Properties\<close>

subsection \<open>Decimal text of an integer\<close>













subsection \<open>Splitting a payload\<close>




lemma on_message_payload:
  "map_of message ''payload'' = Some (PStr what) \<Longrightarrow> split what '':::'' = parts \<Longrightarrow>
   2 \<le> length parts \<Longrightarrow> on_message env message oob s = dispatch env parts what oob s"
  by (simp add: on_message_def Let_def)


subsection \<open>The gateway\<close>





text \<open>
  C10: for every api name, arguments and thread id, \<^verbatim>\<open>dwarf_api\<close> returns None and
  leaves the session as it was, so nothing is posted to the target, when no process is
  attached or no script is loaded; it does not raise.
\<close>

theorem dwarf_api_not_attached:
  "process s = None \<or> script s = None \<Longrightarrow> dwarf_api env api args tid s = (PNone, s)"
  by (auto simp: dwarf_api_def Let_def)

theorem dwarf_api_not_attached_witness:
  "(process (new_Dwarf test_env None) = None \<or> script (new_Dwarf test_env None) = None)
   \<and> dwarf_api test_env ''readBytes'' (PList [PInt 4096, PInt 16]) (PInt 0) (new_Dwarf test_env None)
       = (PNone, new_Dwarf test_env None)"
proof -
  have h: "process (new_Dwarf test_env None) = None \<or> script (new_Dwarf test_env None) = None"
    by (simp add: new_Dwarf_def reload_plugins_def test_env_def)
  show ?thesis using h dwarf_api_not_attached [OF h] by simp
qed





subsection \<open>Native hook acknowledgements\<close>






subsection \<open>Messages the dispatcher cannot decode\<close>

lemma dispatch_unknown:
  "parts ! 0 \<notin> set known_tags \<Longrightarrow>
   dispatch env parts what oob s = (None, emit (Print (''unknown message: '' @ what)) s)"
  by (simp add: dispatch_def known_tags_def)

text \<open>
  C4, as the code has it: a message without a payload, a payload with fewer than two
  fields and a payload with an unrecognised tag raise nothing and change nothing but
  the printed output. The handlers of the recognised tags are outside this statement.
\<close>

theorem undecodable_message_dropped:
  "(map_of message ''payload'' = None \<longrightarrow>
      on_message env message oob s
        = (None, s\<lparr>trace := trace s @ [Print (''payload: '' @ py_str env (PDict message))]\<rparr>)) \<and>
   (map_of message ''payload'' = Some (PStr what) \<and> length (split what '':::'') < 2 \<longrightarrow>
      on_message env message oob s = (None, s\<lparr>trace := trace s @ [Print what]\<rparr>)) \<and>
   (map_of message ''payload'' = Some (PStr what) \<and> 2 \<le> length (split what '':::'') \<and>
    split what '':::'' ! 0 \<notin> set known_tags \<longrightarrow>
      on_message env message oob s
        = (None, s\<lparr>trace := trace s @ [Print (''unknown message: '' @ what)]\<rparr>))"
proof (intro conjI impI)
  assume "map_of message ''payload'' = None"
  then show "on_message env message oob s
        = (None, s\<lparr>trace := trace s @ [Print (''payload: '' @ py_str env (PDict message))]\<rparr>)"
    by (simp add: on_message_def emit_def)
next
  assume "map_of message ''payload'' = Some (PStr what) \<and> length (split what '':::'') < 2"
  then show "on_message env message oob s = (None, s\<lparr>trace := trace s @ [Print what]\<rparr>)"
    by (simp add: on_message_def emit_def Let_def)
next
  assume a: "map_of message ''payload'' = Some (PStr what) \<and> 2 \<le> length (split what '':::'') \<and>
    split what '':::'' ! 0 \<notin> set known_tags"
  then have "on_message env message oob s = dispatch env (split what '':::'') what oob s"
    by (intro on_message_payload) simp_all
  with a show "on_message env message oob s
        = (None, s\<lparr>trace := trace s @ [Print (''unknown message: '' @ what)]\<rparr>)"
    by (simp add: dispatch_unknown emit_def)
qed

theorem undecodable_message_dropped_witness:
  "map_of [(''type'', PStr ''error'')] ''payload'' = None
   \<and> on_message test_env [(''type'', PStr ''error'')] PNone attached
       = (None, attached\<lparr>trace := trace attached @ [Print ''payload: <object>'']\<rparr>)
   \<and> map_of (msg ''hello'') ''payload'' = Some (PStr ''hello'')
   \<and> length (split ''hello'' '':::'') < 2
   \<and> on_message test_env (msg ''hello'') PNone attached
       = (None, attached\<lparr>trace := trace attached @ [Print ''hello'']\<rparr>)
   \<and> map_of (msg ''bogus:::1'') ''payload'' = Some (PStr ''bogus:::1'')
   \<and> 2 \<le> length (split ''bogus:::1'' '':::'')
   \<and> split ''bogus:::1'' '':::'' ! 0 \<notin> set known_tags
   \<and> on_message test_env (msg ''bogus:::1'') PNone attached
       = (None, attached\<lparr>trace := trace attached @ [Print ''unknown message: bogus:::1'']\<rparr>)"
proof -
  have h1: "map_of [(''type'', PStr ''error'')] ''payload'' = None" by simp
  have h2: "map_of (msg ''hello'') ''payload'' = Some (PStr ''hello'') \<and> length (split ''hello'' '':::'') < 2"
    by (simp add: msg_def split_def)
  have sp: "split ''bogus:::1'' '':::'' = [''bogus'', ''1'']" by (simp add: split_def)
  have h3: "map_of (msg ''bogus:::1'') ''payload'' = Some (PStr ''bogus:::1'') \<and>
            2 \<le> length (split ''bogus:::1'' '':::'') \<and> split ''bogus:::1'' '':::'' ! 0 \<notin> set known_tags"
    unfolding sp by (simp add: msg_def known_tags_def)
  have r: "py_str test_env (PDict [(''type'', PStr ''error'')]) = ''<object>''"
    by (simp add: py_str_def test_env_def)
  from undecodable_message_dropped [where message = "[(''type'', PStr ''error'')]" and env = test_env
      and oob = PNone and s = attached] h1
  have c1: "on_message test_env [(''type'', PStr ''error'')] PNone attached
       = (None, attached\<lparr>trace := trace attached @ [Print ''payload: <object>'']\<rparr>)"
    by (simp add: r)
  from undecodable_message_dropped [where message = "msg ''hello''" and env = test_env
      and oob = PNone and s = attached and what = "''hello''"] h2
  have c2: "on_message test_env (msg ''hello'') PNone attached
       = (None, attached\<lparr>trace := trace attached @ [Print ''hello'']\<rparr>)"
    by blast
  from undecodable_message_dropped [where message = "msg ''bogus:::1''" and env = test_env
      and oob = PNone and s = attached and what = "''bogus:::1''"] h3
  have c3: "on_message test_env (msg ''bogus:::1'') PNone attached
       = (None, attached\<lparr>trace := trace attached @ [Print (''unknown message: '' @ ''bogus:::1'')]\<rparr>)"
    by blast
  show ?thesis using h1 h2 h3 c1 c2 c3 by simp
qed

text \<open>
  C4 as stated fails: \<^verbatim>\<open>hook_deleted\<close> for a java hook that is not in the registry lets
  the KeyError of \<^verbatim>\<open>dict.pop\<close> leave the dispatcher.
\<close>

theorem hook_deleted_absent_key_raises:
  "fst (on_message test_env (msg ''hook_deleted:::java:::com.example.Foo'') PNone attached)
     = Some KeyError"
proof -
  have sp: "split ''hook_deleted:::java:::com.example.Foo'' '':::''
              = [''hook_deleted'', ''java'', ''com.example.Foo'']"
    by (simp add: split_def)
  have m: "map_of (msg ''hook_deleted:::java:::com.example.Foo'') ''payload''
             = Some (PStr ''hook_deleted:::java:::com.example.Foo'')"
    by (simp add: msg_def)
  have j: "java_hooks attached = []"
    by (simp add: attached_def new_Dwarf_def reload_plugins_def test_env_def)
  have "on_message test_env (msg ''hook_deleted:::java:::com.example.Foo'') PNone attached
          = dispatch test_env [''hook_deleted'', ''java'', ''com.example.Foo'']
              ''hook_deleted:::java:::com.example.Foo'' PNone attached"
    by (rule on_message_payload [OF m sp]) simp
  also have "\<dots> = h_hook_deleted test_env [''hook_deleted'', ''java'', ''com.example.Foo''] attached"
    by (simp add: dispatch_def)
  also have "fst \<dots> = Some KeyError"
    by (simp add: h_hook_deleted_def need_def part_def pop_def j)
  finally show ?thesis .
qed

subsection \<open>Reinitialisation\<close>










subsection \<open>What touches the context store\<close>

lemma contexts_of_pair: "r = (x, s1) \<Longrightarrow> contexts (snd r) = c \<Longrightarrow> contexts s1 = c"
  by simp

lemma script_post_contexts [simp]: "contexts (snd (script_post env v s)) = contexts s"
  by (simp add: script_post_def emit_def split: option.splits)

lemma script_api_contexts [simp]: "contexts (snd (script_api env tid api args s)) = contexts s"
  by (simp add: script_api_def emit_def split: option.splits)

lemma api_loop_contexts [simp]: "contexts (snd (api_loop env r api ks tid s)) = contexts s"
proof (induction ks arbitrary: tid s)
  case Nil
  then show ?case by simp
next
  case (Cons k ks)
  show ?case
  proof (cases "script_post env (PStr k) s")
    case (Pair x s1)
    have c1: "contexts s1 = contexts s"
      by (rule contexts_of_pair [OF Pair script_post_contexts])
    show ?thesis
    proof (cases x)
      case (Some e)
      with Pair c1 show ?thesis by simp
    next
      case None
      show ?thesis
      proof (cases "r")
        case False
        with Pair None c1 Cons.IH [of "PStr k" s1] show ?thesis by simp
      next
        case True
        show ?thesis
        proof (cases "py_int k")
          case None': None
          with Pair None True c1 show ?thesis by simp
        next
          case (Some n)
          obtain y s2 where a: "script_api env (PInt n) api (PList [PInt n]) s1 = (y, s2)"
            by (cases "script_api env (PInt n) api (PList [PInt n]) s1")
          have c2: "contexts s2 = contexts s"
            using contexts_of_pair [OF a script_api_contexts] c1 by simp
          show ?thesis
            using Pair None True Some a c2 Cons.IH [of "PStr k" s2]
            by (cases y) simp_all
        qed
      qed
    qed
  qed
qed

lemma api_body_contexts [simp]: "contexts (snd (api_body env r api args tid s)) = contexts s"
proof -
  obtain x s1 where a: "api_loop env r api (map fst (contexts s)) tid s = (x, s1)"
    by (cases "api_loop env r api (map fst (contexts s)) tid s")
  have c1: "contexts s1 = contexts s"
    by (rule contexts_of_pair [OF a api_loop_contexts])
  obtain y s2 where b: "script_post env (PStr (py_str env tid)) s = (y, s2)"
    by (cases "script_post env (PStr (py_str env tid)) s")
  have c2: "contexts s2 = contexts s"
    by (rule contexts_of_pair [OF b script_post_contexts])
  show ?thesis
    using a b c1 c2
    by (cases x; cases y) (simp_all add: api_body_def)
qed

lemma dwarf_api_contexts [simp]: "contexts (snd (dwarf_api env api args tid s)) = contexts s"
proof -
  have "\<And>r a t. contexts (snd (case api_body env r api a t s of
                                  (Inr v, s1) \<Rightarrow> (v, s1)
                                | (Inl e, s1) \<Rightarrow> (PNone, log_event (exn_str env e) s1))) = contexts s"
  proof -
    fix r a t
    obtain x s1 where b: "api_body env r api a t s = (x, s1)"
      by (cases "api_body env r api a t s")
    have "contexts s1 = contexts s"
      by (rule contexts_of_pair [OF b api_body_contexts])
    with b show "contexts (snd (case api_body env r api a t s of
                                  (Inr v, s1) \<Rightarrow> (v, s1)
                                | (Inl e, s1) \<Rightarrow> (PNone, log_event (exn_str env e) s1))) = contexts s"
      by (cases x) (simp_all add: log_event_def emit_def)
  qed
  then show ?thesis by (simp add: dwarf_api_def Let_def)
qed

lemma resume_proc_contexts [simp]: "contexts (snd (resume_proc env s)) = contexts s"
  by (simp add: resume_proc_def Let_def emit_def split: option.splits exn.splits)

lemma h_log2_contexts [simp]: "contexts (snd (h_log2 a b i j parts s)) = contexts s"
  by (simp add: h_log2_def need_def log_event_def emit_def split: sum.splits)

lemma h_hook_java_callback_contexts [simp]:
  "contexts (snd (h_hook_java_callback env parts s)) = contexts s"
  by (simp add: h_hook_java_callback_def need_def Let_def emit_def split: sum.splits)

lemma h_hook_java_on_load_callback_contexts [simp]:
  "contexts (snd (h_hook_java_on_load_callback env parts s)) = contexts s"
  by (simp add: h_hook_java_on_load_callback_def Let_def emit_def)

lemma h_hook_native_callback_contexts [simp]:
  "contexts (snd (h_hook_native_callback env parts s)) = contexts s"
  by (simp add: h_hook_native_callback_def need_def Let_def emit_def split: sum.splits)

lemma h_hook_native_on_load_callback_contexts [simp]:
  "contexts (snd (h_hook_native_on_load_callback env parts s)) = contexts s"
  by (simp add: h_hook_native_on_load_callback_def Let_def emit_def)

lemma h_hook_deleted_contexts [simp]: "contexts (snd (h_hook_deleted env parts s)) = contexts s"
  by (simp add: h_hook_deleted_def need_def emit_def split: sum.splits)

lemma h_java_on_load_callback_contexts [simp]:
  "contexts (snd (h_java_on_load_callback parts s)) = contexts s"
proof -
  obtain x s1 where a: "h_log2 ''Hook java onload '' '' @thread := '' 1 2 parts s = (x, s1)"
    by (cases "h_log2 ''Hook java onload '' '' @thread := '' 1 2 parts s")
  have "contexts s1 = contexts s"
    by (rule contexts_of_pair [OF a h_log2_contexts])
  with a show ?thesis
    by (cases x) (simp_all add: h_java_on_load_callback_def emit_def)
qed

lemma h_native_on_load_callback_contexts [simp]:
  "contexts (snd (h_native_on_load_callback parts s)) = contexts s"
proof -
  obtain x s1 where a: "h_log2 ''Hook native onload '' '' @thread := '' 1 3 parts s = (x, s1)"
    by (cases "h_log2 ''Hook native onload '' '' @thread := '' 1 3 parts s")
  have "contexts s1 = contexts s"
    by (rule contexts_of_pair [OF a h_log2_contexts])
  with a show ?thesis
    by (cases x) (simp_all add: h_native_on_load_callback_def emit_def)
qed

lemma h_resume_contexts [simp]: "contexts (snd (h_resume env s)) = contexts s"
  by (simp add: h_resume_def)

lemma h_release_js_contexts [simp]: "contexts (snd (h_release_js env parts s)) = contexts s"
  by (simp add: h_release_js_def need_def on_request_resume_from_js_def emit_def split: sum.splits)

lemma h_set_data_contexts [simp]: "contexts (snd (h_set_data parts oob s)) = contexts s"
  by (simp add: h_set_data_def need_def emit_def split: sum.splits)

lemma h_watcher_contexts [simp]: "contexts (snd (h_watcher env parts s)) = contexts s"
  by (simp add: h_watcher_def need_def log_event_def emit_def split: sum.splits)

lemma h_watcher_added_contexts [simp]: "contexts (snd (h_watcher_added env parts s)) = contexts s"
  by (simp add: h_watcher_added_def need_def Let_def emit_def split: sum.splits)

lemma h_watcher_removed_contexts [simp]: "contexts (snd (h_watcher_removed env parts s)) = contexts s"
  by (simp add: h_watcher_removed_def need_def Let_def emit_def split: sum.splits)

lemma apply_initial_contexts [simp]: "contexts (snd (apply_initial env cd s)) = contexts s"
  by (simp add: apply_initial_def need_def Let_def log_event_def emit_def split: sum.splits)
















end
